theory Spec2Isabelle
  imports Complex_Main "HOL-Library.AList" "HOL-Library.Multiset"
begin

section \<open>Stratified Data: values, columns and frames\<close>

text \<open>
  The script works on a pandas DataFrame. A float64 cell is either finite, one of the
  two infinities, or NaN. A finite cell is kept as the rational number it denotes, and
  arithmetic on finite cells is exact: the rounding of binary64 is not part of this
  model, the special values are.
\<close>

datatype fval = Fin rat | PInf | NInf | NaN

datatype error =
    KeyError string
  | TypeError
  | ValueError
  | IndexError
  | OverflowError
  | NotCategorical

text \<open>
  A column is a float64 column, an object (string) column, or a categorical column: the
  list of its categories and one optional category per row (\<open>None\<close> is the missing
  value). A frame is its row labels and its named columns, in order.
\<close>

datatype column =
    Float64 "fval list"
  | Object "string list"
  | Category "nat list" "nat option list"

record dataframe =
  index :: "nat list"
  columns :: "(string \<times> column) list"

definition len :: "dataframe \<Rightarrow> nat" where
  "len data = length (index data)"

text \<open>\<open>data[name]\<close>: the column, or KeyError.\<close>

definition getitem :: "dataframe \<Rightarrow> string \<Rightarrow> error + column" where
  "getitem data name =
     (case map_of (columns data) name of
        None \<Rightarrow> Inl (KeyError name)
      | Some c \<Rightarrow> Inr c)"

text \<open>\<open>data[name] = c\<close>: replaces the column of that name where it stands, or appends it.\<close>

definition setitem :: "dataframe \<Rightarrow> string \<Rightarrow> column \<Rightarrow> dataframe" where
  "setitem data name c = data\<lparr>columns := AList.update name c (columns data)\<rparr>"

section \<open>Binning: \<open>pd.cut\<close>\<close>

text \<open>
  \<open>pd.cut(x, bins, labels)\<close> with its defaults \<open>right=True\<close> and
  \<open>include_lowest=False\<close> finds, for each value, its place among the bin edges with
  \<open>searchsorted(side='left')\<close>: the number of edges that sort strictly before the value,
  NaN sorting last. A value that is NaN, or that falls before the first edge or on it
  (place 0), or after the last edge (place \<open>len(bins)\<close>), gets the missing value; any
  other value gets the label of the interval that ends at the edge found.
\<close>

fun np_lt :: "fval \<Rightarrow> fval \<Rightarrow> bool" where
  "np_lt NaN _ = False"
| "np_lt _ NaN = True"
| "np_lt _ NInf = False"
| "np_lt NInf _ = True"
| "np_lt PInf _ = False"
| "np_lt _ PInf = True"
| "np_lt (Fin a) (Fin b) = (a < b)"

definition searchsorted_left :: "fval list \<Rightarrow> fval \<Rightarrow> nat" where
  "searchsorted_left a v = length (takeWhile (\<lambda>b. np_lt b v) a)"

definition isna :: "fval \<Rightarrow> bool" where
  "isna x = (x = NaN)"

definition cut_value :: "fval list \<Rightarrow> nat list \<Rightarrow> fval \<Rightarrow> nat option" where
  "cut_value bins labels x =
     (let ids = searchsorted_left bins x
      in if isna x \<or> ids = length bins \<or> ids = 0 then None
         else Some (labels ! (ids - 1)))"

text \<open>
  The edges must increase strictly and there must be one label per interval, else
  ValueError; strings cannot be compared with the edges (TypeError). A categorical source
  column is not something \<open>read_csv\<close> produces; this model rejects it like a string column.
\<close>

definition pd_cut :: "column \<Rightarrow> fval list \<Rightarrow> nat list \<Rightarrow> error + column" where
  "pd_cut x bins labels =
     (case x of
        Float64 xs \<Rightarrow>
          if \<not> sorted_wrt np_lt bins then Inl ValueError
          else if length labels \<noteq> length bins - 1 then Inl ValueError
          else Inr (Category labels (map (cut_value bins labels) xs))
      | Object _ \<Rightarrow> Inl TypeError
      | Category _ _ \<Rightarrow> Inl TypeError)"

definition income_bins :: "fval list" where
  "income_bins = [Fin 0, Fin (3/2), Fin 3, Fin (9/2), Fin 6, PInf]"

definition income_labels :: "nat list" where
  "income_labels = [1, 2, 3, 4, 5]"

definition add_income_category :: "dataframe \<Rightarrow> error + dataframe" where
  "add_income_category data =
     (case getitem data ''median_income'' of
        Inl e \<Rightarrow> Inl e
      | Inr x \<Rightarrow>
          (case pd_cut x income_bins income_labels of
             Inl e \<Rightarrow> Inl e
           | Inr c \<Rightarrow> Inr (setitem data ''income_cat'' c)))"

section \<open>Float arithmetic with the special values\<close>

text \<open>
  NumPy and pandas divide, subtract and multiply float64 values by the IEEE rules: a
  division by zero is not an error, it gives an infinity or NaN. The zero of this model
  is the positive zero (the script only divides counts and proportions, which are never
  negative).
\<close>

fun fdiv :: "fval \<Rightarrow> fval \<Rightarrow> fval" where
  "fdiv NaN _ = NaN"
| "fdiv _ NaN = NaN"
| "fdiv (Fin a) (Fin b) =
     (if b = 0 then (if a = 0 then NaN else if 0 < a then PInf else NInf)
      else Fin (a / b))"
| "fdiv (Fin a) PInf = Fin 0"
| "fdiv (Fin a) NInf = Fin 0"
| "fdiv PInf (Fin b) = (if 0 \<le> b then PInf else NInf)"
| "fdiv NInf (Fin b) = (if 0 \<le> b then NInf else PInf)"
| "fdiv PInf PInf = NaN"
| "fdiv PInf NInf = NaN"
| "fdiv NInf PInf = NaN"
| "fdiv NInf NInf = NaN"



text \<open>
  Python's \<open>int(x)\<close> of a float truncates towards zero; it raises OverflowError on an
  infinity and ValueError on NaN.
\<close>

fun py_int :: "fval \<Rightarrow> error + int" where
  "py_int (Fin q) = Inr (if 0 \<le> q then \<lfloor>q\<rfloor> else \<lceil>q\<rceil>)"
| "py_int PInf = Inl OverflowError"
| "py_int NInf = Inl OverflowError"
| "py_int NaN = Inl ValueError"

section \<open>Selecting rows by position\<close>






section \<open>The random split\<close>


section \<open>The stratified split\<close>




section \<open>Proportions and their comparison\<close>

text \<open>
  \<open>value_counts(normalize=True)\<close> of a categorical column counts every category of the
  column, also one that no row has, and divides each count by the sum of the counts (rows
  with the missing value are not counted). The division is NumPy's true division of
  integers. The table is kept in the order of the categories here; pandas orders it by
  falling count, which changes neither the mapping nor the comparison, which sorts it
  again. The script only ever calls it on the column that \<open>pd.cut\<close> made; other kinds of
  column are outside this model (NotCategorical).
\<close>

definition true_divide :: "nat \<Rightarrow> nat \<Rightarrow> fval" where
  "true_divide a b = fdiv (Fin (of_nat a)) (Fin (of_nat b))"

definition value_counts_normalize :: "column \<Rightarrow> error + (nat \<times> fval) list" where
  "value_counts_normalize col =
     (case col of
        Category cats vals \<Rightarrow>
          (let counts = map (\<lambda>c. count_list vals (Some c)) cats
           in Inr (zip cats (map (\<lambda>n. true_divide n (sum_list counts)) counts)))
      | Float64 _ \<Rightarrow> Inl NotCategorical
      | Object _ \<Rightarrow> Inl NotCategorical)"

definition income_cat_proportions :: "dataframe \<Rightarrow> error + (nat \<times> fval) list" where
  "income_cat_proportions data =
     (case getitem data ''income_cat'' of
        Inl e \<Rightarrow> Inl e
      | Inr col \<Rightarrow> value_counts_normalize col)"





section \<open>The pipeline\<close>



section \<open>The intervals of the labels\<close>

text \<open>
  The intervals the five labels stand for, written as intervals: a label for a value
  above 0, the right end of each interval belonging to it, and no label for a value that
  is 0 or less, the negative infinity or NaN.
\<close>

definition interval_label :: "fval \<Rightarrow> nat option" where
  "interval_label x =
     (case x of
        Fin q \<Rightarrow>
          if 0 < q \<and> q \<le> 3/2 then Some 1
          else if 3/2 < q \<and> q \<le> 3 then Some 2
          else if 3 < q \<and> q \<le> 9/2 then Some 3
          else if 9/2 < q \<and> q \<le> 6 then Some 4
          else if 6 < q then Some 5
          else None
      | PInf \<Rightarrow> Some 5
      | NInf \<Rightarrow> None
      | NaN \<Rightarrow> None)"

section \<open>Frames and generators used as examples\<close>

definition five_rows :: dataframe where
  "five_rows =
     \<lparr>index = [0, 1, 2, 3, 4],
      columns = [(''median_income'', Float64 [Fin (1/2), Fin 2, Fin (7/2), Fin 5, Fin 7])]\<rparr>"


definition boundary_rows :: dataframe where
  "boundary_rows =
     \<lparr>index = [0, 1, 2, 3, 4, 5, 6, 7],
      columns = [(''median_income'',
                  Float64 [Fin (-1), Fin 0, Fin (3/2), Fin 3, Fin (9/2), Fin 6, Fin 15, NaN]),
                 (''ocean_proximity'',
                  Object [''a'', ''b'', ''c'', ''d'', ''e'', ''f'', ''g'', ''h''])]\<rparr>"

definition nonpositive_rows :: dataframe where
  "nonpositive_rows =
     \<lparr>index = [0, 1], columns = [(''median_income'', Float64 [Fin 0, Fin (-1)])]\<rparr>"

definition labelled_rows :: dataframe where
  "labelled_rows =
     \<lparr>index = [0, 1],
      columns = [(''income_cat'', Object [''low'', ''high'']),
                 (''median_income'', Float64 [Fin 1, Fin 7]),
                 (''households'', Float64 [Fin 126, Fin 1138])]\<rparr>"

definition single_label_source :: dataframe where
  "single_label_source =
     \<lparr>index = [0, 1, 2, 3, 4],
      columns = [(''median_income'', Float64 [Fin (7/2), Fin 4, Fin 4, Fin (7/2), Fin (9/2)])]\<rparr>"

definition single_label_rows :: dataframe where
  "single_label_rows =
     \<lparr>index = [0, 1, 2, 3, 4],
      columns = [(''median_income'', Float64 [Fin (7/2), Fin 4, Fin 4, Fin (7/2), Fin (9/2)]),
                 (''income_cat'',
                  Category [1, 2, 3, 4, 5] [Some 3, Some 3, Some 3, Some 3, Some 3])]\<rparr>"

definition single_label_test :: dataframe where
  "single_label_test =
     \<lparr>index = [3],
      columns = [(''median_income'', Float64 [Fin (7/2)]),
                 (''income_cat'', Category [1, 2, 3, 4, 5] [Some 3])]\<rparr>"







section \<open>Facts about the binning\<close>

lemma sorted_income_bins: "sorted_wrt np_lt income_bins"
  by (simp add: income_bins_def)

lemma cut_value_interval_label:
  "cut_value income_bins income_labels x = interval_label x"
proof (cases x)
  case (Fin q)
  then show ?thesis
    by (simp add: cut_value_def searchsorted_left_def isna_def income_bins_def
        income_labels_def interval_label_def)
qed (simp_all add: cut_value_def searchsorted_left_def isna_def income_bins_def
        income_labels_def interval_label_def)

lemma getitem_setitem_same: "getitem (setitem data name c) name = Inr c"
  by (simp add: getitem_def setitem_def update_conv')

lemma getitem_setitem_other:
  "name' \<noteq> name \<Longrightarrow> getitem (setitem data name c) name' = getitem data name'"
  by (simp add: getitem_def setitem_def update_conv')

lemma filter_update_other:
  "filter (\<lambda>(name', c'). name' \<noteq> name) (AList.update name c al)
     = filter (\<lambda>(name', c'). name' \<noteq> name) al"
  by (induction al) auto

text \<open>
  C1, as the code has it. The claim's first interval reaches down to minus infinity; the
  bin edges of the code start at 0, and \<open>pd.cut\<close> leaves the first edge out. So: for every
  frame with a float64 median_income column, \<open>add_income_category\<close> succeeds and the
  income_cat column holds, row by row, the label of the interval the value lies in,
  (0, 1.5] as 1, (1.5, 3] as 2, (3, 4.5] as 3, (4.5, 6] as 4, above 6 as 5, each interval
  closed on the right; a value of 0 or less, and NaN, gets the missing value and no label.
\<close>

theorem add_income_category_intervals:
  assumes "getitem data ''median_income'' = Inr (Float64 xs)"
  shows "\<exists>data'. add_income_category data = Inr data'
           \<and> getitem data' ''income_cat''
               = Inr (Category [1, 2, 3, 4, 5] (map interval_label xs))"
  using assms
  by (simp add: add_income_category_def pd_cut_def sorted_income_bins
      getitem_setitem_same cut_value_interval_label)
     (simp add: income_bins_def income_labels_def)

theorem add_income_category_intervals_witness:
  "getitem boundary_rows ''median_income''
     = Inr (Float64 [Fin (-1), Fin 0, Fin (3/2), Fin 3, Fin (9/2), Fin 6, Fin 15, NaN])
   \<and> (\<exists>data'. add_income_category boundary_rows = Inr data'
         \<and> getitem data' ''income_cat''
             = Inr (Category [1, 2, 3, 4, 5]
                     [None, None, Some 1, Some 2, Some 3, Some 4, Some 5, None]))"
proof -
  have h: "getitem boundary_rows ''median_income''
     = Inr (Float64 [Fin (-1), Fin 0, Fin (3/2), Fin 3, Fin (9/2), Fin 6, Fin 15, NaN])"
    by (simp add: getitem_def boundary_rows_def)
  show ?thesis
    using h add_income_category_intervals [OF h] by (simp add: interval_label_def)
qed

text \<open>
  Against C1 as it is written: the rows with median_income 0 and -1 lie in the claim's
  first interval and would get the label 1; the code gives both the missing value.
\<close>

theorem add_income_category_nonpositive:
  "add_income_category nonpositive_rows =
     Inr \<lparr>index = [0, 1],
          columns = [(''median_income'', Float64 [Fin 0, Fin (-1)]),
                     (''income_cat'', Category [1, 2, 3, 4, 5] [None, None])]\<rparr>"
  by (simp add: add_income_category_def nonpositive_rows_def getitem_def setitem_def pd_cut_def
      sorted_income_bins cut_value_def searchsorted_left_def isna_def income_bins_def
      income_labels_def)

text \<open>
  C8. When \<open>add_income_category\<close> returns a frame, the row labels are the ones of the input
  in the same order (so no row is added, removed or moved), every column other than
  income_cat is read back as it was, and the columns other than income_cat stand in the
  order they had.
\<close>

theorem add_income_category_frame:
  assumes "add_income_category data = Inr data'"
  shows "index data' = index data
       \<and> len data' = len data
       \<and> (\<forall>name. name \<noteq> ''income_cat'' \<longrightarrow> getitem data' name = getitem data name)
       \<and> filter (\<lambda>(name, c). name \<noteq> ''income_cat'') (columns data')
           = filter (\<lambda>(name, c). name \<noteq> ''income_cat'') (columns data)"
proof -
  from assms obtain c where d': "data' = setitem data ''income_cat'' c"
    by (auto simp: add_income_category_def split: sum.splits)
  have "index data' = index data" "len data' = len data"
    by (simp_all add: d' setitem_def len_def)
  moreover have "\<forall>name. name \<noteq> ''income_cat'' \<longrightarrow> getitem data' name = getitem data name"
    by (simp add: d' getitem_setitem_other)
  moreover have "filter (\<lambda>(name, c). name \<noteq> ''income_cat'') (columns data')
           = filter (\<lambda>(name, c). name \<noteq> ''income_cat'') (columns data)"
    by (simp add: d' setitem_def filter_update_other)
  ultimately show ?thesis by simp
qed

theorem add_income_category_frame_witness:
  "add_income_category labelled_rows =
     Inr \<lparr>index = [0, 1],
          columns = [(''income_cat'', Category [1, 2, 3, 4, 5] [Some 1, Some 5]),
                     (''median_income'', Float64 [Fin 1, Fin 7]),
                     (''households'', Float64 [Fin 126, Fin 1138])]\<rparr>
   \<and> index \<lparr>index = [0, 1],
          columns = [(''income_cat'', Category [1, 2, 3, 4, 5] [Some 1, Some 5]),
                     (''median_income'', Float64 [Fin 1, Fin 7]),
                     (''households'', Float64 [Fin 126, Fin 1138])]\<rparr> = index labelled_rows
   \<and> getitem \<lparr>index = [0, 1],
          columns = [(''income_cat'', Category [1, 2, 3, 4, 5] [Some 1, Some 5]),
                     (''median_income'', Float64 [Fin 1, Fin 7]),
                     (''households'', Float64 [Fin 126, Fin 1138])]\<rparr> ''households''
       = getitem labelled_rows ''households''"
proof -
  have h: "add_income_category labelled_rows =
     Inr \<lparr>index = [0, 1],
          columns = [(''income_cat'', Category [1, 2, 3, 4, 5] [Some 1, Some 5]),
                     (''median_income'', Float64 [Fin 1, Fin 7]),
                     (''households'', Float64 [Fin 126, Fin 1138])]\<rparr>"
    by (simp add: add_income_category_def labelled_rows_def getitem_def setitem_def pd_cut_def
      sorted_income_bins cut_value_def searchsorted_left_def isna_def income_bins_def
      income_labels_def)
  show ?thesis
    using h add_income_category_frame [OF h] by (simp add: labelled_rows_def getitem_def)
qed

text \<open>
  C9. A frame of five rows whose median_income is 0.5, 2.0, 3.5, 5.0, 7.0 gets the labels
  1, 2, 3, 4, 5 in that order, one row in each bin; its index and its median_income
  column stay as they were.
\<close>

theorem add_income_category_five_rows:
  "add_income_category five_rows =
     Inr \<lparr>index = [0, 1, 2, 3, 4],
          columns = [(''median_income'', Float64 [Fin (1/2), Fin 2, Fin (7/2), Fin 5, Fin 7]),
                     (''income_cat'',
                      Category [1, 2, 3, 4, 5] [Some 1, Some 2, Some 3, Some 4, Some 5])]\<rparr>"
  by (simp add: add_income_category_def five_rows_def getitem_def setitem_def pd_cut_def
      sorted_income_bins cut_value_def searchsorted_left_def isna_def income_bins_def
      income_labels_def)

section \<open>Facts about the random split\<close>

lemma py_int_nonneg: "0 \<le> q \<Longrightarrow> py_int (Fin q) = Inr \<lfloor>q\<rfloor>"
  by simp














section \<open>Facts about the proportions\<close>

lemma single_label_rows_made:
  "add_income_category single_label_source = Inr single_label_rows"
  by (simp add: add_income_category_def single_label_source_def single_label_rows_def
      getitem_def setitem_def pd_cut_def
      sorted_income_bins cut_value_def searchsorted_left_def isna_def income_bins_def
      income_labels_def)

lemma true_divide_zero: "true_divide 0 n = (if n = 0 then NaN else Fin 0)"
  by (simp add: true_divide_def)

lemma sum_list_zero_iff: "sum_list (map f xs) = (0::nat) \<longleftrightarrow> (\<forall>x\<in>set xs. f x = 0)"
  by (induction xs) auto

text \<open>
  C4, as the code has it. The income_cat column that \<open>pd.cut\<close> makes is categorical, and
  \<open>value_counts\<close> of a categorical column has an entry for every category. So: for every
  frame whose income_cat column is categorical, \<open>income_cat_proportions\<close> returns a table
  whose keys are all the categories of the column, and a category that no row has is
  mapped to 0 (to NaN when no row has any category), not left out.
\<close>

theorem income_cat_proportions_all_categories:
  assumes "getitem data ''income_cat'' = Inr (Category cats vals)"
  shows "\<exists>table. income_cat_proportions data = Inr table
           \<and> map fst table = cats
           \<and> (\<forall>c\<in>set cats. Some c \<notin> set vals \<longrightarrow>
                 map_of table c
                   = Some (if \<exists>c'\<in>set cats. Some c' \<in> set vals then Fin 0 else NaN))"
proof -
  let ?cnt = "\<lambda>c. count_list vals (Some c)"
  let ?total = "sum_list (map ?cnt cats)"
  let ?table = "zip cats (map (\<lambda>c. true_divide (?cnt c) ?total) cats)"
  have tab: "income_cat_proportions data = Inr ?table"
    using assms
    by (simp add: income_cat_proportions_def value_counts_normalize_def Let_def comp_def)
  have keys: "map fst ?table = cats" by simp
  have total: "?total = 0 \<longleftrightarrow> \<not> (\<exists>c'\<in>set cats. Some c' \<in> set vals)"
    by (simp add: sum_list_zero_iff count_list_0_iff)
  have "map_of ?table c
          = Some (if \<exists>c'\<in>set cats. Some c' \<in> set vals then Fin 0 else NaN)"
    if c: "c \<in> set cats" and absent: "Some c \<notin> set vals" for c
  proof -
    have "map_of ?table c = Some (true_divide (?cnt c) ?total)"
      using c by (simp add: map_of_zip_map)
    moreover have "?cnt c = 0" using absent by (simp add: count_list_0_iff)
    ultimately show ?thesis using total by (simp add: true_divide_zero)
  qed
  with tab keys show ?thesis by blast
qed

theorem income_cat_proportions_all_categories_witness:
  "getitem single_label_test ''income_cat'' = Inr (Category [1, 2, 3, 4, 5] [Some 3])
   \<and> (\<exists>table. income_cat_proportions single_label_test = Inr table
         \<and> map fst table = [1, 2, 3, 4, 5]
         \<and> map_of table 1 = Some (Fin 0) \<and> map_of table 5 = Some (Fin 0))"
proof -
  have h: "getitem single_label_test ''income_cat'' = Inr (Category [1, 2, 3, 4, 5] [Some 3])"
    by (simp add: getitem_def single_label_test_def)
  show ?thesis
    using h income_cat_proportions_all_categories [OF h] by auto
qed

text \<open>
  Against C4 as it is written: in a frame where every row has the label 3, the labels
  1, 2, 4 and 5 do not occur, and the table has an entry 0 for each of them.
\<close>

theorem income_cat_proportions_single_label:
  "income_cat_proportions single_label_rows
     = Inr [(1, Fin 0), (2, Fin 0), (3, Fin 1), (4, Fin 0), (5, Fin 0)]"
  by (simp add: income_cat_proportions_def getitem_def single_label_rows_def
      value_counts_normalize_def true_divide_def)





section \<open>Facts about the stratified split\<close>





section \<open>The pipeline does not depend on the generator's earlier state\<close>


end
